theory Spec2Isabelle
  imports Main
begin

section \<open>Regular expressions as the source uses them\<close>

text \<open>
  The module drives everything through four regular expressions (\<open>semver\<close>,
  \<open>sillyver\<close>, \<open>githubRE\<close> and the line separator of \<open>req\<close>). They are kept as
  data, and matched by a backtracking matcher that returns the ways to match in the
  order in which the JavaScript matcher tries them: a quantifier is greedy, an alternative
  tries its left side first, and the result of \<open>exec\<close> is the first way found at the
  leftmost start index.

  A string is a list of 8-bit characters; the character classes list their members in
  that range (\<open>\s\<close> has the no-break space \<open>0xA0\<close>, and the line terminators are
  \<open>0x0A\<close> and \<open>0x0D\<close>).
\<close>

datatype regex =
    Eps
  | Chr char
  | OneOf "char list"
  | NoneOf "char list"
  | Seq regex regex
  | Alt regex regex
  | Star regex
  | Opt regex
  | Group nat regex

type_synonym captures = "nat \<rightharpoonup> string"

type_synonym mstate = "string \<times> captures"

text \<open>\<open>r+\<close> is one mandatory iteration followed by \<open>r*\<close>.\<close>

definition Plus :: "regex \<Rightarrow> regex" where
  "Plus r = Seq r (Star r)"

text \<open>The pieces of a pattern written one after the other.\<close>

fun cat :: "regex list \<Rightarrow> regex" where
  "cat [] = Eps"
| "cat [r] = r"
| "cat (r # rs) = Seq r (cat rs)"

text \<open>A literal string: each character stands for itself.\<close>

definition lit :: "string \<Rightarrow> regex" where
  "lit s = cat (map Chr s)"

text \<open>
  \<open>run r (s, c)\<close> lists the states reachable by matching \<open>r\<close> at the front of the
  remaining input \<open>s\<close> with captures \<open>c\<close>, in backtracking order. An iteration of \<open>*\<close>
  or \<open>?\<close> that consumes nothing is rejected, as the language's \<open>RepeatMatcher\<close> does.
  (The language also clears the groups inside a quantifier at each round; no pattern of
  the module has a group that is entered twice, so this never shows.)
\<close>

function run :: "regex \<Rightarrow> mstate \<Rightarrow> mstate list" where
  "run Eps st = [st]"
| "run (Chr a) st =
     (case fst st of [] \<Rightarrow> [] | x # xs \<Rightarrow> if x = a then [(xs, snd st)] else [])"
| "run (OneOf cs) st =
     (case fst st of [] \<Rightarrow> [] | x # xs \<Rightarrow> if x \<in> set cs then [(xs, snd st)] else [])"
| "run (NoneOf cs) st =
     (case fst st of [] \<Rightarrow> [] | x # xs \<Rightarrow> if x \<notin> set cs then [(xs, snd st)] else [])"
| "run (Seq r1 r2) st = concat (map (run r2) (run r1 st))"
| "run (Alt r1 r2) st = run r1 st @ run r2 st"
| "run (Star r) st =
     concat (map (\<lambda>st'. if length (fst st') < length (fst st) then run (Star r) st' else [])
                 (run r st)) @ [st]"
| "run (Opt r) st =
     filter (\<lambda>st'. length (fst st') < length (fst st)) (run r st) @ [st]"
| "run (Group n r) st =
     map (\<lambda>st'. (fst st', (snd st')(n \<mapsto> take (length (fst st) - length (fst st')) (fst st))))
         (run r st)"
  by pat_completeness auto
termination
  by (relation "inv_image (less_than <*lex*> less_than) (\<lambda>(r, st). (size r, length (fst st)))")
     auto

declare run.simps(7) [simp del]

text \<open>The match array of \<open>exec\<close>: \<open>match.index\<close>, \<open>match[0]\<close> and the groups
  \<open>match[1]\<close>, \<open>match[2]\<close>, ... (\<open>None\<close> is \<open>undefined\<close>: the group took no part).\<close>

record rmatch =
  index :: nat
  whole :: string
  groups :: captures

text \<open>\<open>search r i s\<close>: try start index \<open>i\<close>, where \<open>s\<close> is the input from \<open>i\<close> on, then
  the following indices up to and including the end of the input.\<close>

fun search :: "regex \<Rightarrow> nat \<Rightarrow> string \<Rightarrow> rmatch option" where
  "search r i [] =
     (case run r ([], Map.empty) of
        [] \<Rightarrow> None
      | st # _ \<Rightarrow> Some \<lparr>index = i, whole = [], groups = snd st\<rparr>)"
| "search r i (x # xs) =
     (case run r (x # xs, Map.empty) of
        [] \<Rightarrow> search r (Suc i) xs
      | st # _ \<Rightarrow> Some \<lparr>index = i, whole = take (Suc (length xs) - length (fst st)) (x # xs),
                         groups = snd st\<rparr>)"

text \<open>\<open>RegExp.prototype.exec\<close> and \<open>test\<close> of a pattern without the global flag.\<close>

definition regexp_exec :: "regex \<Rightarrow> string \<Rightarrow> rmatch option" where
  "regexp_exec r text = search r 0 text"

definition regexp_test :: "regex \<Rightarrow> string \<Rightarrow> bool" where
  "regexp_test r text = (regexp_exec r text \<noteq> None)"

subsection \<open>Character classes\<close>

definition digit :: "char list" where
  "digit = ''0123456789''"

definition alpha :: "char list" where
  "alpha = ''abcdefghijklmnopqrstuvwxyzABCDEFGHIJKLMNOPQRSTUVWXYZ''"

text \<open>\<open>\w\<close> is \<open>[A-Za-z0-9_]\<close>.\<close>

definition word_char :: "char list" where
  "word_char = alpha @ digit @ ''_''"

text \<open>\<open>\s\<close>: tab, line feed, vertical tab, form feed, carriage return, space,
  no-break space.\<close>

definition space :: "char list" where
  "space = [CHR 0x09, CHR 0x0A, CHR 0x0B, CHR 0x0C, CHR 0x0D, CHR '' '', CHR 0xA0]"

text \<open>\<open>.\<close> matches everything but a line terminator.\<close>

definition line_terminator :: "char list" where
  "line_terminator = [CHR 0x0A, CHR 0x0D]"

definition dot :: regex where
  "dot = NoneOf line_terminator"

subsection \<open>The patterns of the module\<close>

text \<open>
  \<^verbatim>\<open>
  var semver = [
      "\\s*[v=]*\\s*([0-9]+)"             // major
    , "\\.([0-9]+)"                       // minor
    , "\\.([0-9]+)"                       // patch
    , "(-[0-9]+-?)?"                      // build
    ,  "([a-zA-Z-][a-zA-Z0-9-\\.:]*)?"    // tag
  ];
  \<close>
\<close>

definition semver :: regex where
  "semver = cat
     [ cat [Star (OneOf space), Star (OneOf ''v=''), Star (OneOf space),
            Group 1 (Plus (OneOf digit))]
     , cat [Chr CHR ''.'', Group 2 (Plus (OneOf digit))]
     , cat [Chr CHR ''.'', Group 3 (Plus (OneOf digit))]
     , Opt (Group 4 (cat [Chr CHR ''-'', Plus (OneOf digit), Opt (Chr CHR ''-'')]))
     , Opt (Group 5 (cat [OneOf (alpha @ ''-''), Star (OneOf (alpha @ digit @ ''-.:''))])) ]"

text \<open>
  \<^verbatim>\<open>
  var sillyver = [
      "\\s*[v=]*\\s*(\\d)"                // major
    , "\\.([\\d][-\\s]?)"                 // minor
    , "(?:([a-zA-Z-][a-zA-Z0-9-.:]*)?)?"  // silly
  ];
  \<close>
\<close>

definition sillyver :: regex where
  "sillyver = cat
     [ cat [Star (OneOf space), Star (OneOf ''v=''), Star (OneOf space),
            Group 1 (OneOf digit)]
     , cat [Chr CHR ''.'', Group 2 (cat [OneOf digit, Opt (OneOf (''-'' @ space))])]
     , Opt (Opt (Group 3 (cat [OneOf (alpha @ ''-''), Star (OneOf (alpha @ digit @ ''-.:''))]))) ]"

text \<open>
  \<^verbatim>\<open>var githubRE = /github.com\/([\w\.\-]+)\/([\w\.\-]+)\/blob(\/[\w\.\-]+)\/(.*)/;\<close>
  The dot of \<open>github.com\<close> is not escaped: it matches any character of a line.
\<close>

definition githubRE :: regex where
  "githubRE = cat
     [ lit ''github'', dot, lit ''com'', Chr CHR ''/''
     , Group 1 (Plus (OneOf (word_char @ ''.-''))), Chr CHR ''/''
     , Group 2 (Plus (OneOf (word_char @ ''.-''))), Chr CHR ''/'', lit ''blob''
     , Group 3 (cat [Chr CHR ''/'', Plus (OneOf (word_char @ ''.-''))]), Chr CHR ''/''
     , Group 4 (Star dot) ]"

section \<open>Values, errors and callbacks\<close>

text \<open>
  The values that the variable \<open>version\<close> of \<open>req\<close> and the field \<open>version\<close> of a
  bundle hold: \<open>undefined\<close>, a string, or the function \<open>Update.prototype.version\<close>.
\<close>

datatype jsval = Undefined | Str string | Fn

definition truthy :: "jsval \<Rightarrow> bool" where
  "truthy v = (case v of Undefined \<Rightarrow> False | Str s \<Rightarrow> s \<noteq> [] | Fn \<Rightarrow> True)"

text \<open>\<open>Error\<close>: an error the module builds with \<open>new Error(message)\<close>; \<open>TypeError\<close>:
  thrown by the language; \<open>Foreign\<close>: an error that a collaborator hands over or throws
  (the HTTP client, the lazy loader, the GitHub client, the file system, \<open>JSON.parse\<close>).\<close>

datatype error = Error string | TypeError string | Foreign string

text \<open>What a function that takes a callback does with it: an exception escapes, or the
  callback is called with these arguments, or the function returns and the callback is
  never called.\<close>

datatype 'a called = Thrown error | Called 'a | Silent

text \<open>A value of the manifest once parsed: an object with its properties in order, or
  a leaf.\<close>

datatype json = Val jsval | Obj "(string \<times> json) list"

section \<open>The data of the build tool\<close>

text \<open>
  A bundle entry \<open>bundles[key]\<close>. The fields \<open>version\<close>, \<open>download\<close> and \<open>content\<close>
  are named \<open>entry_version\<close>, \<open>entry_download\<close> and \<open>entry_content\<close> here, apart from
  the methods and variables of the same name; \<open>meta_location\<close> is \<open>meta.location\<close>.
\<close>

record entry =
  entry_version :: jsval
  latest :: "string option"
  entry_download :: bool
  entry_content :: "string option"
  meta_location :: string

text \<open>\<open>square.package\<close>; \<open>bundles\<close> is its property \<open>bundle\<close>, in the order of
  \<open>Object.keys\<close>.\<close>

record package =
  path :: "string option"
  source :: string
  location :: string
  bundles :: "(string \<times> entry) list"

record square =
  package :: package

section \<open>The updater object\<close>

text \<open>
  \<^verbatim>\<open>
  function Update(square) {
    this.strict = semver;
    this.loose = sillyver;
    this.lines = 10;
    this.square = square;
  }
  \<close>
  The object has no property \<open>logger\<close>: the logger is \<open>square.logger\<close>.
\<close>

record update =
  strict :: regex
  loose :: regex
  lines :: int
  square :: square

definition Update :: "square \<Rightarrow> update" where
  "Update sq = \<lparr>strict = semver, loose = sillyver, lines = 10, square = sq\<rparr>"

section \<open>The collaborators\<close>

text \<open>What \<open>request.get\<close> passes to its callback: an error, or a response with its
  status code and the body (\<open>None\<close>: no body).\<close>

datatype http_reply = Unreachable error | Response int "string option"

record commit =
  sha :: string

text \<open>
  The world outside the module, as far as the module asks it:
  \<^item> \<open>http_get uri\<close>: the reply of \<open>request.get(uri, ...)\<close>;
  \<^item> \<open>canihaz_github\<close>, \<open>canihaz_cheerio\<close>: the error of the lazy loader, if any;
  \<^item> \<open>getCommits user repo path sha\<close>: the answer of \<open>api.repos.getCommits\<close>;
  \<^item> \<open>write_error path\<close>: the exception that \<open>fs.writeFileSync(path, ...)\<close> throws, if any;
  \<^item> \<open>JSON_parse\<close>, \<open>JSON_stringify\<close>: the two functions of the language.
\<close>

record world =
  http_get :: "string \<Rightarrow> http_reply"
  canihaz_github :: "error option"
  canihaz_cheerio :: "error option"
  getCommits :: "string option \<Rightarrow> string option \<Rightarrow> string option \<Rightarrow> string \<Rightarrow> error + commit list"
  write_error :: "string \<Rightarrow> error option"
  JSON_parse :: "string \<Rightarrow> error + json"
  JSON_stringify :: "json \<Rightarrow> string"

text \<open>What a run does to the outside, in order: a notice of the logger, an error given to
  the logger, a file written, and a call of the callback \<open>cb\<close> that \<open>async.forEach\<close>
  gave to the iterator for a key.\<close>

datatype event =
    Notice string "string list"
  | LoggedError error
  | Write string "string option"
  | Cb string "error option"

text \<open>The state of a run: the updater object with everything it reaches, and the events
  so far.\<close>

record state =
  updater :: update
  trace :: "event list"

section \<open>version: the version number of a text\<close>

text \<open>\<open>String.prototype.trim\<close>: the white space at both ends goes.\<close>

definition trim :: "string \<Rightarrow> string" where
  "trim s = rev (dropWhile (\<lambda>c. c \<in> set space) (rev (dropWhile (\<lambda>c. c \<in> set space) s)))"

text \<open>\<open>match[k] ? match[k].trim() : 0\<close>: an absent group and an empty one are falsy
  and give the number \<open>0\<close>, which \<open>join\<close> prints as \<open>0\<close>.\<close>

definition component :: "string option \<Rightarrow> string" where
  "component g = (case g of None \<Rightarrow> ''0'' | Some s \<Rightarrow> if s = [] then ''0'' else trim s)"

definition joined :: "rmatch \<Rightarrow> string" where
  "joined m = component (groups m 1) @ ''.'' @ component (groups m 2) @ ''.''
                @ component (groups m 3)"

text \<open>
  \<^verbatim>\<open>
  [ new RegExp(this.strict.source), new RegExp(this.loose.source) ].some(function some (regexp) {
    var match = regexp.exec(content);
    if (match && match.length) { result = [ ... ].join('.'); }
    return !!result;
  });
  return result;
  \<close>
  The patterns are compiled again from their source, so without the flags of the
  originals. \<open>result\<close> holds two dots once set, so it is truthy and \<open>some\<close> stops there.
\<close>

fun some_regexp :: "regex list \<Rightarrow> string \<Rightarrow> string option" where
  "some_regexp [] content = None"
| "some_regexp (regexp # rest) content =
     (case regexp_exec regexp content of
        Some m \<Rightarrow> Some (joined m)
      | None \<Rightarrow> some_regexp rest content)"

text \<open>\<open>version\<close> called on the updater \<open>self\<close>.\<close>

definition version :: "update \<Rightarrow> string \<Rightarrow> string option" where
  "version self content = some_regexp [strict self, loose self] content"

text \<open>The argument of \<open>exec\<close> is made a string: \<open>undefined\<close> reads \<open>undefined\<close>.\<close>

definition to_string :: "string option \<Rightarrow> string" where
  "to_string v = (case v of None \<Rightarrow> ''undefined'' | Some s \<Rightarrow> s)"

text \<open>
  A call \<open>f(line)\<close> where the variable \<open>f\<close> holds the value \<open>v\<close> and the call has the
  receiver \<open>this\<close> (\<open>None\<close>: a plain call, whose \<open>this\<close> is \<open>undefined\<close> under
  \<open>'use strict'\<close>). Only a function can be called, and \<open>version\<close> reads \<open>this.strict\<close>
  first.
\<close>

definition call_version :: "jsval \<Rightarrow> update option \<Rightarrow> string option \<Rightarrow> error + jsval" where
  "call_version v this line =
     (case v of
        Fn \<Rightarrow>
          (case this of
             None \<Rightarrow> Inl (TypeError ''Cannot read property 'strict' of undefined'')
           | Some self \<Rightarrow>
               Inr (case version self (to_string line) of None \<Rightarrow> Undefined | Some s \<Rightarrow> Str s))
      | _ \<Rightarrow> Inl (TypeError ''version is not a function''))"

section \<open>raw: from a blob address to the raw file\<close>

text \<open>
  \<^verbatim>\<open>
  var user, repo, branch, file, chunks = githubRE.exec(uri);
  user = chunks[1]; repo = chunks[2];
  branch = chunks[3].substr(1); // remove the first /
  file = chunks[4];
  return 'https://raw.github.com/' + user + '/' + repo + '/' + branch + '/'+ file;
  \<close>
  \<open>chunks\<close> is \<open>null\<close> when the pattern does not match, and reading \<open>chunks[1]\<close> throws.
\<close>

definition raw :: "string \<Rightarrow> error + string" where
  "raw uri =
     (case regexp_exec githubRE uri of
        None \<Rightarrow> Inl (TypeError ''Cannot read property '1' of null'')
      | Some chunks \<Rightarrow>
          (case groups chunks 3 of
             None \<Rightarrow> Inl (TypeError ''Cannot call method 'substr' of undefined'')
           | Some c3 \<Rightarrow>
               Inr (''https://raw.github.com/'' @ to_string (groups chunks 1) @ ''/''
                    @ to_string (groups chunks 2) @ ''/'' @ drop 1 c3 @ ''/''
                    @ to_string (groups chunks 4))))"

section \<open>download, req, github, selector\<close>

text \<open>
  \<^verbatim>\<open>
  request.get(uri, function requested(err, res, body) {
    if (err) return fn(err);
    if (res.statusCode !== 200) return fn(new Error('Invalid status code'));
    fn(null, body.toString('utf8'));
  });
  \<close>
  The result is what \<open>fn\<close> is called with: \<open>Inl err\<close> for \<open>fn(err)\<close>, \<open>Inr content\<close> for
  \<open>fn(null, content)\<close>.
\<close>

definition download :: "world \<Rightarrow> string \<Rightarrow> (error + string) called" where
  "download w uri =
     (case http_get w uri of
        Unreachable err \<Rightarrow> Called (Inl err)
      | Response statusCode body \<Rightarrow>
          if statusCode \<noteq> 200 then Called (Inl (Error ''Invalid status code''))
          else (case body of
                  None \<Rightarrow> Thrown (TypeError ''Cannot call method 'toString' of undefined'')
                | Some b \<Rightarrow> Called (Inr b)))"

text \<open>
  \<open>content.split(/(\r\n)|\r|\n/)\<close>: the pieces between the separators and, after each
  piece but the last, what the group of the separator captured: \<open>\r\n\<close>, or \<open>undefined\<close>
  when the separator was a lone \<open>\r\<close> or \<open>\n\<close>. \<open>cur\<close> is the piece being read, reversed.
  (A separator that matches the empty string does not split; this one never does.)
\<close>

definition separator :: regex where
  "separator = Alt (Group 1 (lit [CHR 0x0D, CHR 0x0A])) (Alt (Chr CHR 0x0D) (Chr CHR 0x0A))"

function split :: "regex \<Rightarrow> string \<Rightarrow> string \<Rightarrow> string option list" where
  "split sep cur [] = [Some (rev cur)]"
| "split sep cur (x # xs) =
     (case run sep (x # xs, Map.empty) of
        [] \<Rightarrow> split sep (x # cur) xs
      | st # _ \<Rightarrow>
          if length (fst st) < Suc (length xs)
          then Some (rev cur) # snd st 1 # split sep [] (fst st)
          else split sep (x # cur) xs)"
  by pat_completeness auto
termination
  by (relation "measure (\<lambda>(sep, cur, s). length s)") auto

text \<open>\<open>array.splice(0, n)\<close> returns the first \<open>n\<close> elements (none when \<open>n\<close> is negative).\<close>

definition splice0 :: "'a list \<Rightarrow> int \<Rightarrow> 'a list" where
  "splice0 xs n = take (nat n) xs"

text \<open>
  \<^verbatim>\<open>
  lines.some(function someline (line) {
    version = version(line);
    return !!version;
  });
  \<close>
  The variable \<open>version\<close> first holds the function \<open>this.version\<close>, and each round stores the
  result of the call in the same variable. The call is a plain call, without receiver.
\<close>

fun someline :: "jsval \<Rightarrow> string option list \<Rightarrow> error + jsval" where
  "someline v [] = Inr v"
| "someline v (line # rest) =
     (case call_version v None line of
        Inl e \<Rightarrow> Inl e
      | Inr v' \<Rightarrow> if truthy v' then Inr v' else someline v' rest)"

text \<open>
  \<^verbatim>\<open>
  Update.prototype.req = function req(uri, fn) {
    var lines = this.lines, version = this.version;
    this.download(uri, function downloading(err, content) {
      if (err) return fn(err);
      if (!content) return fn(new Error('No content received from ' + uri));
      lines = content.split(/(\r\n)|\r|\n/).splice(0, lines);
      lines.some(function someline (line) { ... });
      fn(null, version, content);
    });
  };
  \<close>
  \<open>this\<close> is the receiver of the call of \<open>req\<close> (\<open>None\<close>: a plain call). The result is what
  \<open>fn\<close> is called with: \<open>Inl err\<close>, or \<open>Inr (version, content)\<close>.
\<close>

definition req :: "update option \<Rightarrow> world \<Rightarrow> string \<Rightarrow> (error + jsval \<times> string option) called" where
  "req this w uri =
     (case this of
        None \<Rightarrow> Thrown (TypeError ''Cannot read property 'lines' of undefined'')
      | Some self \<Rightarrow>
          (case download w uri of
             Thrown e \<Rightarrow> Thrown e
           | Silent \<Rightarrow> Silent
           | Called (Inl err) \<Rightarrow> Called (Inl err)
           | Called (Inr content) \<Rightarrow>
               if content = [] then Called (Inl (Error (''No content received from '' @ uri)))
               else (case someline Fn (splice0 (split separator [] content) (lines self)) of
                       Inl e \<Rightarrow> Thrown e
                     | Inr v \<Rightarrow> Called (Inr (v, Some content)))))"

text \<open>
  \<^verbatim>\<open>
  Update.prototype.github = function github(uri, fn) {
    var user, repo, branch, file, chunks = githubRE.exec(uri);
    user = chunks[1]; repo = chunks[2]; branch = chunks[3].substr(1); file = chunks[4];
    canihaz.github(function lazyload (err, Github) {
      if (err) return fn(err);
      var api = new Github({ version: "3.0.0" })
        , request = { user: user, repo: repo, path: file, sha: branch };
      api.repos.getCommits(request, function getcommit (err, list) {
        if (err) return fn(err);
        if (!list.length) return fn(new Error('No commits in this repo: ' + uri));
        var commit = list.shift();
        fn(null, commit.sha);
      });
    });
  };
  \<close>
\<close>

definition github :: "world \<Rightarrow> string \<Rightarrow> (error + jsval \<times> string option) called" where
  "github w uri =
     (case regexp_exec githubRE uri of
        None \<Rightarrow> Thrown (TypeError ''Cannot read property '1' of null'')
      | Some chunks \<Rightarrow>
          (case groups chunks 3 of
             None \<Rightarrow> Thrown (TypeError ''Cannot call method 'substr' of undefined'')
           | Some c3 \<Rightarrow>
               (case canihaz_github w of
                  Some err \<Rightarrow> Called (Inl err)
                | None \<Rightarrow>
                    (case getCommits w (groups chunks 1) (groups chunks 2) (groups chunks 4)
                            (drop 1 c3) of
                       Inl err \<Rightarrow> Called (Inl err)
                     | Inr [] \<Rightarrow> Called (Inl (Error (''No commits in this repo: '' @ uri)))
                     | Inr (commit # _) \<Rightarrow> Called (Inr (Str (sha commit), None))))))"

text \<open>
  \<^verbatim>\<open>
  canihaz.cheerio(function (err, cheerio) {
    if (err) return fn(err);
    console.log(cheerio.load(uri)(css).text());
    // call fn
  });
  \<close>
  Without an error of the loader, \<open>fn\<close> is never called.
\<close>

definition selector :: "world \<Rightarrow> string \<Rightarrow> (error + jsval \<times> string option) called" where
  "selector w uri =
     (case canihaz_cheerio w of Some err \<Rightarrow> Called (Inl err) | None \<Rightarrow> Silent)"

section \<open>execute: the run over the bundles\<close>

datatype provider = Selector | Github | Req

text \<open>
  \<^verbatim>\<open>
  if (~bundle.latest.indexOf('#')) provider = self.selector;
  if (githubRE.test(bundle.latest)) provider = self.github;
  if (!provider) provider = self.req;
  \<close>
  Three statements one after the other: a later assignment replaces an earlier one.
\<close>

definition select_provider :: "string \<Rightarrow> provider" where
  "select_provider uri =
     (let provider = None;
          provider = (if CHR ''#'' \<in> set uri then Some Selector else provider);
          provider = (if regexp_test githubRE uri then Some Github else provider)
      in case provider of None \<Rightarrow> Req | Some p \<Rightarrow> p)"

text \<open>\<open>provider(bundle.latest, test)\<close>: a plain call, so \<open>req\<close> runs without receiver.\<close>

definition provide :: "provider \<Rightarrow> world \<Rightarrow> string \<Rightarrow> (error + jsval \<times> string option) called" where
  "provide p w uri =
     (case p of Selector \<Rightarrow> selector w uri | Github \<Rightarrow> github w uri | Req \<Rightarrow> req None w uri)"

text \<open>Reading and replacing the entry of a key; logging.\<close>

definition entry_of :: "state \<Rightarrow> string \<Rightarrow> entry option" where
  "entry_of st key = map_of (bundles (package (square (updater st)))) key"

definition put_entry :: "string \<Rightarrow> entry \<Rightarrow> state \<Rightarrow> state" where
  "put_entry key e st =
     st\<lparr>updater := (updater st)\<lparr>square := (square (updater st))\<lparr>package :=
       (package (square (updater st)))\<lparr>bundles :=
          map (\<lambda>(k, v). if k = key then (k, e) else (k, v))
              (bundles (package (square (updater st))))\<rparr>\<rparr>\<rparr>\<rparr>"

definition put_source :: "string \<Rightarrow> state \<Rightarrow> state" where
  "put_source src st =
     st\<lparr>updater := (updater st)\<lparr>square := (square (updater st))\<lparr>package :=
       (package (square (updater st)))\<lparr>source := src\<rparr>\<rparr>\<rparr>\<rparr>"

definition emit :: "event \<Rightarrow> state \<Rightarrow> state" where
  "emit ev st = st\<lparr>trace := trace st @ [ev]\<rparr>"

definition show_val :: "jsval \<Rightarrow> string" where
  "show_val v = (case v of Undefined \<Rightarrow> ''undefined'' | Str s \<Rightarrow> s | Fn \<Rightarrow> ''[Function]'')"

text \<open>\<open>fs.writeFileSync(path, data)\<close>: throws, or the file is written.\<close>

definition writeFileSync :: "world \<Rightarrow> string \<Rightarrow> string option \<Rightarrow> state \<Rightarrow> error + state" where
  "writeFileSync w p data st =
     (case write_error w p of Some e \<Rightarrow> Inl e | None \<Rightarrow> Inr (emit (Write p data) st))"

text \<open>
  \<open>code.bundle[key].version = version\<close> on the parsed manifest: \<open>code.bundle\<close> and
  \<open>code.bundle[key]\<close> have to be objects, or the statement throws. An existing property
  keeps its place, a new one comes last.
\<close>

fun assign :: "(string \<times> json) list \<Rightarrow> string \<Rightarrow> json \<Rightarrow> (string \<times> json) list" where
  "assign [] name v = [(name, v)]"
| "assign ((k, old) # props) name v =
     (if k = name then (k, v) # props else (k, old) # assign props name v)"

definition set_version :: "json \<Rightarrow> string \<Rightarrow> jsval \<Rightarrow> error + json" where
  "set_version code key v =
     (case code of
        Obj props \<Rightarrow>
          (case map_of props ''bundle'' of
             Some (Obj bs) \<Rightarrow>
               (case map_of bs key of
                  Some (Obj e) \<Rightarrow>
                    Inr (Obj (assign props ''bundle''
                           (Obj (assign bs key (Obj (assign e ''version'' (Val v)))))))
                | _ \<Rightarrow> Inl (TypeError ''Cannot set property 'version' of undefined''))
           | _ \<Rightarrow> Inl (TypeError ''Cannot set property 'version' of undefined''))
      | Val _ \<Rightarrow> Inl (TypeError ''Cannot read property of undefined''))"

text \<open>
  \<^verbatim>\<open>
  function done(err, content) {
    if (err) return cb(err);
    var code = JSON.parse(self.square.package.source), current = bundle.version, source;
    code.bundle[key].version = version;
    bundle.version = version;
    bundle.content = content;
    source = JSON.stringify(code, null, 2);
    self.square.package.source = source;
    try {
      fs.writeFileSync(self.square.package.location, source);
      fs.writeFileSync(bundle.meta.location, content);
    } catch (e) { err = e; }
    self.square.logger.notice('sucessfully updated %s from version %s to %s'
      , key, current.grey, version.green);
    cb(err);
  }
  \<close>
  The result is the new state and what happens to \<open>cb\<close>: \<open>Called err\<close> for \<open>cb(err)\<close>.
  \<open>current.grey\<close> throws when the recorded version is \<open>undefined\<close>.
\<close>

definition done_cb ::
  "world \<Rightarrow> string \<Rightarrow> entry \<Rightarrow> jsval \<Rightarrow> state \<Rightarrow> error option \<Rightarrow> string option
     \<Rightarrow> state \<times> error option called" where
  "done_cb w key b v st err content =
     (case err of
        Some e \<Rightarrow> (st, Called (Some e))
      | None \<Rightarrow>
          (case JSON_parse w (source (package (square (updater st)))) of
             Inl e \<Rightarrow> (st, Thrown e)
           | Inr code \<Rightarrow>
               (let current = entry_version b in
                case set_version code key v of
                  Inl e \<Rightarrow> (st, Thrown e)
                | Inr code' \<Rightarrow>
                    (let st1 = put_entry key (b\<lparr>entry_version := v, entry_content := content\<rparr>) st;
                         src = JSON_stringify w code';
                         st2 = put_source src st1;
                         (st3, err') =
                           (case writeFileSync w (location (package (square (updater st2))))
                                   (Some src) st2 of
                              Inl e \<Rightarrow> (st2, Some e)
                            | Inr st' \<Rightarrow>
                                (case writeFileSync w (meta_location b) content st' of
                                   Inl e \<Rightarrow> (st', Some e)
                                 | Inr st'' \<Rightarrow> (st'', None)))
                     in if current = Undefined
                        then (st3, Thrown (TypeError ''Cannot read property 'grey' of undefined''))
                        else (emit (Notice ''sucessfully updated %s from version %s to %s''
                                      [key, show_val current, show_val v]) st3,
                              Called err')))))"

text \<open>
  \<^verbatim>\<open>
  provider(bundle.latest, function test (err, version, content) {
    if (err) return cb(err);
    if (!version) return cb(new Error('unable to find and parse the version for ' + key));
    if (version === bundle.version) return cb();
    self.square.logger.notice('%s is out of date, latest version is %s', key, version.green);
    function done(err, content) { ... }
    if (content) return done(undefined, content);
    var data = bundle.download || provider === self.github
      ? self.raw(bundle.latest)
      : bundle.latest;
    self.download(data, done);
  });
  \<close>
  \<open>b\<close> is the entry \<open>bundle\<close> and \<open>uri\<close> its \<open>latest\<close>.
\<close>

definition test ::
  "world \<Rightarrow> string \<Rightarrow> entry \<Rightarrow> string \<Rightarrow> provider \<Rightarrow> state \<Rightarrow> error option \<Rightarrow> jsval
     \<Rightarrow> string option \<Rightarrow> state \<times> error option called" where
  "test w key b uri p st err v content =
     (case err of
        Some e \<Rightarrow> (st, Called (Some e))
      | None \<Rightarrow>
          if \<not> truthy v
          then (st, Called (Some (Error (''unable to find and parse the version for '' @ key))))
          else if v = entry_version b then (st, Called None)
          else
            (let st1 = emit (Notice ''%s is out of date, latest version is %s''
                               [key, show_val v]) st
             in if content \<noteq> None \<and> content \<noteq> Some []
                then done_cb w key b v st1 None content
                else (case (if entry_download b \<or> p = Github then raw uri else Inr uri) of
                        Inl e \<Rightarrow> (st1, Thrown e)
                      | Inr data \<Rightarrow>
                          (case download w data of
                             Thrown e \<Rightarrow> (st1, Thrown e)
                           | Silent \<Rightarrow> (st1, Silent)
                           | Called (Inl e) \<Rightarrow> done_cb w key b v st1 (Some e) None
                           | Called (Inr c) \<Rightarrow> done_cb w key b v st1 None (Some c)))))"

text \<open>
  \<^verbatim>\<open>
  function testing (key, cb) {
    var bundle = bundles[key], provider;
    if (!bundle.latest) return cb();
    ...
    provider(bundle.latest, function test (err, version, content) { ... });
  }
  \<close>
  The keys are those of \<open>bundles\<close>, so the entry is there.
\<close>

definition testing :: "world \<Rightarrow> string \<Rightarrow> state \<Rightarrow> state \<times> error option called" where
  "testing w key st =
     (case entry_of st key of
        None \<Rightarrow> (st, Thrown (TypeError ''Cannot read property 'latest' of undefined''))
      | Some b \<Rightarrow>
          (case latest b of
             None \<Rightarrow> (st, Called None)
           | Some uri \<Rightarrow>
               if uri = [] then (st, Called None)
               else (let p = select_provider uri in
                     case provide p w uri of
                       Thrown e \<Rightarrow> (st, Thrown e)
                     | Silent \<Rightarrow> (st, Silent)
                     | Called (Inl e) \<Rightarrow> test w key b uri p st (Some e) Undefined None
                     | Called (Inr (v, c)) \<Rightarrow> test w key b uri p st None v c)))"

text \<open>
  \<^verbatim>\<open>
  function finished(err, data) {
    if (err && err.forEach) {
      err.forEach(function failed (err) { self.logger.error(err); });
    }
  }
  \<close>
  The argument is nothing, one error object (which has no \<open>forEach\<close>), or an array of
  errors. \<open>self.logger\<close> is \<open>undefined\<close>, so the first round of the loop throws. The result
  is the state and the exception, if any.
\<close>

datatype final_arg = NoError | OneError error | ErrorArray "error list"

definition finished :: "final_arg \<Rightarrow> state \<Rightarrow> state \<times> error option" where
  "finished err st =
     (case err of
        ErrorArray (e # es) \<Rightarrow> (st, Some (TypeError ''Cannot call method 'error' of undefined''))
      | _ \<Rightarrow> (st, None))"

datatype outcome = Returned | Threw error

text \<open>
  \<open>async.forEach(files, testing, finished)\<close> of the library \<open>async\<close>: the iterator is called
  for every key in order; the callback \<open>cb\<close> it receives calls \<open>finished\<close> with the first
  error it is given and then replaces it by a function that does nothing, and calls
  \<open>finished(null)\<close> once all keys have completed without error. An exception of the iterator
  ends the loop and escapes. The callbacks of a key run here right after its call, in
  the order of the keys. \<open>n\<close> is the number of keys, \<open>completed\<close> the count of the
  library, \<open>live\<close> tells that \<open>finished\<close> has not been replaced.
\<close>

fun forEach :: "world \<Rightarrow> nat \<Rightarrow> string list \<Rightarrow> nat \<Rightarrow> bool \<Rightarrow> state \<Rightarrow> state \<times> outcome" where
  "forEach w n [] completed live st = (st, Returned)"
| "forEach w n (key # keys) completed live st =
     (case testing w key st of
        (st', Thrown e) \<Rightarrow> (st', Threw e)
      | (st', Silent) \<Rightarrow> forEach w n keys completed live st'
      | (st', Called (Some err)) \<Rightarrow>
          (let st1 = emit (Cb key (Some err)) st' in
           if live
           then (case finished (OneError err) st1 of
                   (st2, Some e) \<Rightarrow> (st2, Threw e)
                 | (st2, None) \<Rightarrow> forEach w n keys completed False st2)
           else forEach w n keys completed live st1)
      | (st', Called None) \<Rightarrow>
          (let st1 = emit (Cb key None) st' in
           if Suc completed = n \<and> live
           then (case finished NoError st1 of
                   (st2, Some e) \<Rightarrow> (st2, Threw e)
                 | (st2, None) \<Rightarrow> forEach w n keys (Suc completed) live st2)
           else forEach w n keys (Suc completed) live st1))"

text \<open>
  \<^verbatim>\<open>
  Update.prototype.execute = function execute(fn) {
    var bundles = this.square.package.bundle, files = Object.keys(bundles), self = this;
    if (!this.square.package.path) return;
    async.forEach(files, function testing (key, cb) { ... }, function finished(err, data) { ... });
  };
  \<close>
  \<open>fn\<close> is the callback of the caller: what calling it would do to the state.
  \<open>async.forEach\<close> calls \<open>finished\<close> at once when there is no key.
\<close>

definition execute :: "world \<Rightarrow> (state \<Rightarrow> state) \<Rightarrow> state \<Rightarrow> state \<times> outcome" where
  "execute w fn st =
     (let files = map fst (bundles (package (square (updater st)))) in
      if path (package (square (updater st))) = None
         \<or> path (package (square (updater st))) = Some []
      then (st, Returned)
      else if files = []
      then (case finished NoError st of
              (st', Some e) \<Rightarrow> (st', Threw e)
            | (st', None) \<Rightarrow> (st', Returned))
      else forEach w (length files) files 0 True st)"

section \<open>Notions used in the statements\<close>


definition first :: "regex \<Rightarrow> mstate \<Rightarrow> mstate option" where
  "first r st = (case run r st of [] \<Rightarrow> None | x # _ \<Rightarrow> Some x)"


text \<open>An owner, a repository or a branch as \<open>githubRE\<close> reads it: one character or more of
  \<open>[\w\.\-]\<close>.\<close>

definition name_text :: "string \<Rightarrow> bool" where
  "name_text s = (s \<noteq> [] \<and> set s \<subseteq> set (word_char @ ''.-''))"






text \<open>\<open>code.bundle[key].version\<close> read from a parsed manifest.\<close>

definition recorded_in :: "json \<Rightarrow> string \<Rightarrow> json option" where
  "recorded_in code key =
     (case code of
        Obj props \<Rightarrow>
          (case map_of props ''bundle'' of
             Some (Obj bs) \<Rightarrow>
               (case map_of bs key of Some (Obj e) \<Rightarrow> map_of e ''version'' | _ \<Rightarrow> None)
           | _ \<Rightarrow> None)
      | Val _ \<Rightarrow> None)"

text \<open>The errors given to the logger in a run, in order.\<close>

definition logged :: "state \<Rightarrow> error list" where
  "logged st = concat (map (\<lambda>ev. case ev of LoggedError e \<Rightarrow> [e] | _ \<Rightarrow> []) (trace st))"

section \<open>Inputs of the examples\<close>

definition blank :: square where
  "blank = \<lparr>package = \<lparr>path = None, source = [], location = [], bundles = []\<rparr>\<rparr>"

text \<open>A world where every request is answered with status 200 and an empty body, no
  repository has a commit, every file can be written, and the manifest parses into the
  bundles \<open>a\<close> and \<open>b\<close>.\<close>

definition quiet :: world where
  "quiet = \<lparr>http_get = (\<lambda>uri. Response 200 (Some [])), canihaz_github = None,
     canihaz_cheerio = None, getCommits = (\<lambda>user repo file branch. Inr []),
     write_error = (\<lambda>p. None),
     JSON_parse = (\<lambda>s. Inr (Obj [(''bundle'', Obj [(''a'', Obj []), (''b'', Obj [])])])),
     JSON_stringify = (\<lambda>code. ''{}'')\<rparr>"

definition serving :: "string \<Rightarrow> world" where
  "serving body = quiet\<lparr>http_get := (\<lambda>uri. Response 200 (Some body))\<rparr>"

text \<open>Eleven lines \<open>x\<close>, then \<open>v1.2.3\<close> on line 12.\<close>

definition twelve_lines :: string where
  "twelve_lines = concat (replicate 11 [CHR ''x'', CHR 0x0A]) @ ''v1.2.3''"

definition third_party :: "string \<Rightarrow> string \<Rightarrow> entry" where
  "third_party recorded uri =
     \<lparr>entry_version = Str recorded, latest = Some uri, entry_download = False,
      entry_content = None, meta_location = ''vendor.js''\<rparr>"

text \<open>A manifest loaded from \<open>square.json\<close> with the given bundles, before the run.\<close>

definition manifest :: "(string \<times> entry) list \<Rightarrow> state" where
  "manifest bs = \<lparr>updater = Update \<lparr>package = \<lparr>path = Some ''square.json'', source = ''{}'',
       location = ''square.json'', bundles = bs\<rparr>\<rparr>, trace = []\<rparr>"

definition two_github :: state where
  "two_github = manifest
     [(''a'', third_party ''1'' ''https://github.com/acme/a/blob/master/a.js''),
      (''b'', third_party ''1'' ''https://github.com/acme/b/blob/master/b.js'')]"

definition plain_then_github :: state where
  "plain_then_github = manifest
     [(''a'', third_party ''1'' ''http://code.example.org/a.js''),
      (''b'', third_party ''1'' ''https://github.com/acme/b/blob/master/b.js'')]"

text \<open>Every repository has one commit, \<open>abc\<close>.\<close>

definition one_commit :: world where
  "one_commit = quiet\<lparr>getCommits := (\<lambda>user repo file branch. Inr [\<lparr>sha = ''abc''\<rparr>])\<rparr>"

definition up_to_date :: state where
  "up_to_date = manifest [(''a'', third_party ''abc'' ''https://github.com/acme/a/blob/master/a.js'')]"

text \<open>
  A manifest with one bundle that has an address and no recorded version, as text and
  parsed, before and after the version \<open>abc\<close> is set; the world where the repository has
  the commit \<open>abc\<close>, the raw file reads \<open>code\<close>, no file can be written, and the two
  functions of the language work on these two manifests.
\<close>

definition quoted :: "string \<Rightarrow> string" where
  "quoted s = [CHR 0x22] @ s @ [CHR 0x22]"

definition acme_a :: string where
  "acme_a = ''https://github.com/acme/a/blob/master/a.js''"

definition manifest_before :: string where
  "manifest_before =
     ''{'' @ quoted ''bundle'' @ '':{'' @ quoted ''a'' @ '':{'' @ quoted ''latest'' @ '':''
       @ quoted acme_a @ ''}}}''"

definition tree_before :: json where
  "tree_before = Obj [(''bundle'', Obj [(''a'', Obj [(''latest'', Val (Str acme_a))])])]"

definition tree_after :: json where
  "tree_after = Obj [(''bundle'', Obj [(''a'',
       Obj [(''latest'', Val (Str acme_a)), (''version'', Val (Str ''abc''))])])]"

definition manifest_after :: string where
  "manifest_after = concat
     [ ''{'', [CHR 0x0A]
     , ''  '', quoted ''bundle'', '': {'', [CHR 0x0A]
     , ''    '', quoted ''a'', '': {'', [CHR 0x0A]
     , ''      '', quoted ''latest'', '': '', quoted acme_a, '','', [CHR 0x0A]
     , ''      '', quoted ''version'', '': '', quoted ''abc'', [CHR 0x0A]
     , ''    }'', [CHR 0x0A]
     , ''  }'', [CHR 0x0A]
     , ''}'' ]"

definition vendor_world :: world where
  "vendor_world =
     \<lparr>http_get = (\<lambda>uri. if uri = ''https://raw.github.com/acme/a/master/a.js''
                         then Response 200 (Some ''code'') else Response 404 None),
      canihaz_github = None, canihaz_cheerio = None,
      getCommits = (\<lambda>user repo file branch. Inr [\<lparr>sha = ''abc''\<rparr>]),
      write_error = (\<lambda>p. Some (Foreign ''EACCES'')),
      JSON_parse = (\<lambda>s. if s = manifest_before then Inr tree_before
                          else Inl (Foreign ''SyntaxError'')),
      JSON_stringify = (\<lambda>code. if code = tree_after then manifest_after else manifest_before)\<rparr>"

definition unversioned_entry :: entry where
  "unversioned_entry =
     \<lparr>entry_version = Undefined, latest = Some acme_a, entry_download = False,
      entry_content = None, meta_location = ''vendor/a.js''\<rparr>"

definition unversioned :: state where
  "unversioned =
     \<lparr>updater = Update \<lparr>package = \<lparr>path = Some ''square.json'', source = manifest_before,
        location = ''square.json'', bundles = [(''a'', unversioned_entry)]\<rparr>\<rparr>,
      trace = []\<rparr>"

section \<open>The matcher: first way, frame, greedy classes\<close>
lemma run_Star_OneOf_Nil: "run (Star (OneOf cs)) ([], c) = [([], c)]"
  by (subst run.simps(7)) simp

lemma run_Star_OneOf_Cons:
  "run (Star (OneOf cs)) (x # s, c) =
     (if x \<in> set cs then run (Star (OneOf cs)) (s, c) @ [(x # s, c)] else [(x # s, c)])"
  by (subst run.simps(7)) simp

lemma run_suffix: "st' \<in> set (run r st) \<Longrightarrow> \<exists>p. fst st = p @ fst st'"
proof (induction r st arbitrary: st' rule: run.induct)
  case (5 r1 r2 st)
  then obtain mid where m: "mid \<in> set (run r1 st)" "st' \<in> set (run r2 mid)" by auto
  from "5.IH"(1)[OF m(1)] "5.IH"(2)[OF m(1) m(2)] show ?case by auto
next
  case (7 r st)
  show ?case
  proof (cases "st' = st")
    case True then show ?thesis by simp
  next
    case False
    with "7.prems"(1) [unfolded run.simps(7) [of r st]] obtain mid where m: "mid \<in> set (run r st)"
      "length (fst mid) < length (fst st)" "st' \<in> set (run (Star r) mid)"
      by (auto split: if_splits)
    from "7.IH"(1)[OF m(1)] "7.IH"(2)[OF m(1) m(2) m(3)] show ?thesis by auto
  qed
next
  case (9 n r st)
  then show ?case by auto
qed (auto split: list.splits if_splits)


lemma first_Seq:
  "first r1 st = Some x \<Longrightarrow> first r2 x = Some y \<Longrightarrow> first (Seq r1 r2) st = Some y"
  by (auto simp: first_def split: list.splits)


lemma first_OneOf: "x \<in> set cs \<Longrightarrow> first (OneOf cs) (x # s, c) = Some (s, c)"
  by (simp add: first_def)

lemma first_Star_OneOf:
  "first (Star (OneOf cs)) (s, c) = Some (dropWhile (\<lambda>x. x \<in> set cs) s, c)"
proof (induction s)
  case Nil
  then show ?case by (simp add: first_def run_Star_OneOf_Nil)
next
  case (Cons a s)
  then show ?case by (auto simp: first_def run_Star_OneOf_Cons split: list.splits)
qed

lemma first_Plus_OneOf:
  "x \<in> set cs \<Longrightarrow> first (Plus (OneOf cs)) (x # s, c) = Some (dropWhile (\<lambda>x. x \<in> set cs) s, c)"
  unfolding Plus_def by (rule first_Seq[OF first_OneOf first_Star_OneOf])

lemma first_Group:
  "first r st = Some x \<Longrightarrow>
   first (Group n r) st = Some (fst x, (snd x)(n \<mapsto> take (length (fst st) - length (fst x)) (fst st)))"
  by (auto simp: first_def split: list.splits)




lemma dropWhile_stop: "s = [] \<or> \<not> P (hd s) \<Longrightarrow> dropWhile P s = s"
  by (cases s) auto


lemma first_Group_Plus:
  assumes "X \<noteq> []" "set X \<subseteq> set cs" "rest = [] \<or> hd rest \<notin> set cs"
  shows "first (Group n (Plus (OneOf cs))) (X @ rest, c) = Some (rest, c(n \<mapsto> X))"
proof -
  from assms(1) obtain x xs where X: "X = x # xs" by (cases X) auto
  with assms(2) have x: "x \<in> set cs" and xs: "\<And>y. y \<in> set xs \<Longrightarrow> y \<in> set cs" by auto
  have "dropWhile (\<lambda>x. x \<in> set cs) (xs @ rest) = rest"
    using xs assms(3) by (simp add: dropWhile_append2 dropWhile_stop)
  with first_Plus_OneOf[OF x, of "xs @ rest" c]
  have "first (Plus (OneOf cs)) (X @ rest, c) = Some (rest, c)" by (simp add: X)
  from first_Group[OF this, of n] show ?thesis by simp
qed

lemma digit_not_space: "x \<in> set digit \<Longrightarrow> x \<notin> set space"
  by (auto simp: digit_def space_def)










lemma run_Star_OneOf_cases:
  "st' \<in> set (run (Star (OneOf cs)) (s, c)) \<Longrightarrow>
     \<exists>p. s = p @ fst st' \<and> set p \<subseteq> set cs \<and> snd st' = c"
proof (induction s)
  case Nil
  then show ?case by (simp add: run_Star_OneOf_Nil)
next
  case (Cons a s)
  show ?case
  proof (cases "st' = (a # s, c)")
    case True
    then show ?thesis by simp
  next
    case False
    with Cons.prems have a: "a \<in> set cs" and "st' \<in> set (run (Star (OneOf cs)) (s, c))"
      by (auto simp: run_Star_OneOf_Cons split: if_splits)
    from Cons.IH[OF this(2)] obtain p where "s = p @ fst st'" "set p \<subseteq> set cs" "snd st' = c"
      by blast
    with a have "a # s = (a # p) @ fst st' \<and> set (a # p) \<subseteq> set cs \<and> snd st' = c" by simp
    then show ?thesis by blast
  qed
qed

lemma run_SeqE: "y \<in> set (run (Seq a b) st) \<Longrightarrow> \<exists>m\<in>set (run a st). y \<in> set (run b m)"
  by simp

lemma run_GroupE:
  "y \<in> set (run (Group n r) st) \<Longrightarrow>
     \<exists>m\<in>set (run r st). y = (fst m, (snd m)(n \<mapsto> take (length (fst st) - length (fst m)) (fst st)))"
  by auto

lemma run_OneOfE:
  "y \<in> set (run (OneOf cs) (s, c)) \<Longrightarrow> \<exists>x. s = x # fst y \<and> x \<in> set cs \<and> snd y = c"
  by (cases s) (auto split: if_splits)

lemma run_ChrE: "y \<in> set (run (Chr a) (s, c)) \<Longrightarrow> s = a # fst y \<and> snd y = c"
  by (cases s) (auto split: if_splits)

lemma run_OptE: "y \<in> set (run (Opt r) st) \<Longrightarrow> y = st \<or> y \<in> set (run r st)"
  by auto



lemma first_Seq_None: "first r1 st = None \<Longrightarrow> first (Seq r1 r2) st = None"
  by (simp add: first_def split: list.splits)


















lemma search_first:
  "first r (s, Map.empty) = Some y \<Longrightarrow> \<exists>m. search r i s = Some m \<and> groups m = snd y"
  by (cases s) (auto simp: first_def split: list.splits)

lemma search_skip:
  "first r (x # s, Map.empty) = None \<Longrightarrow> search r i (x # s) = search r (Suc i) s"
  by (auto simp: first_def split: list.splits)


lemma trim_id: "s \<noteq> [] \<Longrightarrow> hd s \<notin> set space \<Longrightarrow> last s \<notin> set space \<Longrightarrow> trim s = s"
  by (simp add: trim_def dropWhile_stop hd_rev)




section \<open>The strict pattern\<close>




section \<open>The loose pattern\<close>


lemma group1_shape:
  assumes "a \<in> set (run (Group 1 (OneOf digit)) (s, c))"
  shows "\<exists>x. x \<in> set digit \<and> s = x # fst a \<and> snd a = c(1 \<mapsto> [x])"
proof -
  from run_GroupE[OF assms] obtain m where
    m: "m \<in> set (run (OneOf digit) (s, c))"
    and a: "a = (fst m, (snd m)(1 \<mapsto> take (length s - length (fst m)) s))" by auto
  from run_OneOfE[OF m] obtain x where "s = x # fst m" "x \<in> set digit" "snd m = c" by blast
  with a show ?thesis by auto
qed

lemma group2_shape:
  assumes "b \<in> set (run (Group 2 (cat [OneOf digit, Opt (OneOf cls)])) (s, c))"
  shows "\<exists>d sep. d \<in> set digit \<and> s = d # sep @ fst b \<and> set sep \<subseteq> set cls \<and> length sep \<le> 1
           \<and> snd b = c(2 \<mapsto> d # sep)"
proof -
  from run_GroupE[OF assms] obtain m where
    m: "m \<in> set (run (cat [OneOf digit, Opt (OneOf cls)]) (s, c))"
    and b: "b = (fst m, (snd m)(2 \<mapsto> take (length s - length (fst m)) s))" by auto
  from m have "m \<in> set (run (Seq (OneOf digit) (Opt (OneOf cls))) (s, c))" by simp
  from run_SeqE[OF this] obtain k where
    k: "k \<in> set (run (OneOf digit) (s, c))" and mk: "m \<in> set (run (Opt (OneOf cls)) k)" by blast
  from run_OneOfE[OF k] obtain d where d: "s = d # fst k" "d \<in> set digit" "snd k = c" by blast
  from run_OptE[OF mk] show ?thesis
  proof
    assume "m = k"
    with b d have "d \<in> set digit \<and> s = d # [] @ fst b \<and> set [] \<subseteq> set cls \<and> length ([]::string) \<le> 1
           \<and> snd b = c(2 \<mapsto> d # [])" by auto
    then show ?thesis by blast
  next
    assume "m \<in> set (run (OneOf cls) k)"
    then have "m \<in> set (run (OneOf cls) (fst k, snd k))" by simp
    from run_OneOfE[OF this] obtain e where e: "fst k = e # fst m" "e \<in> set cls" "snd m = snd k"
      by blast
    with b d have "d \<in> set digit \<and> s = d # [e] @ fst b \<and> set [e] \<subseteq> set cls \<and> length [e] \<le> 1
           \<and> snd b = c(2 \<mapsto> d # [e])" by auto
    then show ?thesis by blast
  qed
qed

lemma group3_shape:
  assumes "y \<in> set (run (Group 3 (cat [OneOf c1, Star (OneOf c2)])) (s, c))"
  shows "\<exists>t p. t \<in> set c1 \<and> set p \<subseteq> set c2 \<and> s = t # p @ fst y \<and> snd y = c(3 \<mapsto> t # p)"
proof -
  from run_GroupE[OF assms] obtain m where
    m: "m \<in> set (run (cat [OneOf c1, Star (OneOf c2)]) (s, c))"
    and y: "y = (fst m, (snd m)(3 \<mapsto> take (length s - length (fst m)) s))" by auto
  from m have "m \<in> set (run (Seq (OneOf c1) (Star (OneOf c2))) (s, c))" by simp
  from run_SeqE[OF this] obtain k where
    k: "k \<in> set (run (OneOf c1) (s, c))" and mk: "m \<in> set (run (Star (OneOf c2)) k)" by blast
  from run_OneOfE[OF k] obtain t where t: "s = t # fst k" "t \<in> set c1" "snd k = c" by blast
  from mk have "m \<in> set (run (Star (OneOf c2)) (fst k, snd k))" by simp
  from run_Star_OneOf_cases[OF this] obtain p where
    p: "fst k = p @ fst m" "set p \<subseteq> set c2" "snd m = snd k" by blast
  with y t have "t \<in> set c1 \<and> set p \<subseteq> set c2 \<and> s = t # p @ fst y \<and> snd y = c(3 \<mapsto> t # p)"
    by auto
  then show ?thesis by blast
qed


lemma sillyver_shape:
  assumes "y \<in> set (run sillyver (s, Map.empty))"
  shows "\<exists>major minor sep. major \<in> set digit \<and> minor \<in> set digit
           \<and> set sep \<subseteq> set (''-'' @ space) \<and> length sep \<le> 1
           \<and> snd y 1 = Some [major] \<and> snd y 2 = Some (minor # sep)
           \<and> (snd y 3 = None
                \<or> (\<exists>t p. t \<in> set (alpha @ ''-'') \<and> set p \<subseteq> set (alpha @ digit @ ''-.:'')
                      \<and> snd y 3 = Some (t # p)))"
proof -
  let ?G2 = "Group 2 (cat [OneOf digit, Opt (OneOf (''-'' @ space))])"
  let ?G3 = "Group 3 (cat [OneOf (alpha @ ''-''), Star (OneOf (alpha @ digit @ ''-.:''))])"
  have eq: "sillyver = Seq (Seq (Star (OneOf space)) (Seq (Star (OneOf ''v=''))
                 (Seq (Star (OneOf space)) (Group 1 (OneOf digit)))))
              (Seq (Seq (Chr CHR ''.'') ?G2) (Opt (Opt ?G3)))"
    by (simp add: sillyver_def)
  from assms[unfolded eq] run_SeqE obtain a where
    a: "a \<in> set (run (Seq (Star (OneOf space)) (Seq (Star (OneOf ''v=''))
                 (Seq (Star (OneOf space)) (Group 1 (OneOf digit))))) (s, Map.empty))"
    and ya: "y \<in> set (run (Seq (Seq (Chr CHR ''.'') ?G2) (Opt (Opt ?G3))) a)" by blast
  from run_SeqE[OF a] obtain x1 where
    x1: "x1 \<in> set (run (Star (OneOf space)) (s, Map.empty))"
    and a1: "a \<in> set (run (Seq (Star (OneOf ''v=''))
                 (Seq (Star (OneOf space)) (Group 1 (OneOf digit)))) x1)" by blast
  from run_SeqE[OF a1] obtain x2 where
    x2: "x2 \<in> set (run (Star (OneOf ''v='')) x1)"
    and a2: "a \<in> set (run (Seq (Star (OneOf space)) (Group 1 (OneOf digit))) x2)" by blast
  from run_SeqE[OF a2] obtain x3 where
    x3: "x3 \<in> set (run (Star (OneOf space)) x2)"
    and a3: "a \<in> set (run (Group 1 (OneOf digit)) x3)" by blast
  from run_Star_OneOf_cases[OF x1] have c1: "snd x1 = Map.empty" by blast
  from run_Star_OneOf_cases[of x2 "''v=''" "fst x1" "snd x1"] x2 have c2: "snd x2 = snd x1" by auto
  from run_Star_OneOf_cases[of x3 space "fst x2" "snd x2"] x3 have c3: "snd x3 = snd x2" by auto
  from group1_shape[of a "fst x3" "snd x3"] a3 c1 c2 c3 obtain major where
    major: "major \<in> set digit" "snd a = [1 \<mapsto> [major]]" by auto
  from run_SeqE[OF ya] obtain b where
    b: "b \<in> set (run (Seq (Chr CHR ''.'') ?G2) a)" and yb: "y \<in> set (run (Opt (Opt ?G3)) b)"
    by blast
  from run_SeqE[OF b] obtain k where
    k: "k \<in> set (run (Chr CHR ''.'') a)" and bk: "b \<in> set (run ?G2 k)" by blast
  from run_ChrE[of k "CHR ''.''" "fst a" "snd a"] k have ck: "snd k = snd a" by simp
  from group2_shape[of b "''-'' @ space" "fst k" "snd k"] bk ck major(2) obtain minor sep where
    minor: "minor \<in> set digit" "set sep \<subseteq> set (''-'' @ space)" "length sep \<le> 1"
      "snd b = [1 \<mapsto> [major], 2 \<mapsto> minor # sep]" by auto
  from run_OptE[OF yb] have "y = b \<or> y \<in> set (run ?G3 b)"
    using run_OptE[of y ?G3 b] by blast
  then show ?thesis
  proof
    assume "y = b"
    with major(1) minor show ?thesis by fastforce
  next
    assume "y \<in> set (run ?G3 b)"
    then have "y \<in> set (run ?G3 (fst b, snd b))" by simp
    from group3_shape[OF this] obtain t p where
      tp: "t \<in> set (alpha @ ''-'')" "set p \<subseteq> set (alpha @ digit @ ''-.:'')"
        "snd y = (snd b)(3 \<mapsto> t # p)" by blast
    from tp(3) minor(4) have "snd y 1 = Some [major]" "snd y 2 = Some (minor # sep)"
      "snd y 3 = Some (t # p)" by simp_all
    with major(1) minor(1,2,3) tp(1,2) show ?thesis by blast
  qed
qed

lemma search_sound:
  "search r i s = Some m \<Longrightarrow> \<exists>s' y. y \<in> set (run r (s', Map.empty)) \<and> groups m = snd y"
proof (induction s arbitrary: i)
  case Nil
  show ?case
  proof (cases "run r ([], Map.empty)")
    case Nil
    with Nil.prems show ?thesis by simp
  next
    case (Cons st rest)
    with Nil.prems have "groups m = snd st" by auto
    moreover from Cons have "st \<in> set (run r ([], Map.empty))" by simp
    ultimately show ?thesis by blast
  qed
next
  case (Cons x xs)
  show ?case
  proof (cases "run r (x # xs, Map.empty)")
    case Nil
    with Cons.prems have "search r (Suc i) xs = Some m" by simp
    from Cons.IH[OF this] show ?thesis .
  next
    case (Cons st rest)
    with Cons.prems have "groups m = snd st" by auto
    moreover from Cons have "st \<in> set (run r (x # xs, Map.empty))" by simp
    ultimately show ?thesis by blast
  qed
qed

lemma tag_char_not_space: "x \<in> set (alpha @ digit @ ''-.:'') \<Longrightarrow> x \<notin> set space"
  by (auto simp: alpha_def digit_def space_def)

lemma tag_hd_not_space: "x \<in> set (alpha @ ''-'') \<Longrightarrow> x \<notin> set space"
  by (auto simp: alpha_def space_def)

lemma trim_tag:
  assumes "t \<in> set (alpha @ ''-'')" "set p \<subseteq> set (alpha @ digit @ ''-.:'')"
  shows "trim (t # p) = t # p"
proof (rule trim_id)
  show "t # p \<noteq> []" by simp
  show "hd (t # p) \<notin> set space" using assms(1) tag_hd_not_space by simp
  show "last (t # p) \<notin> set space"
  proof (cases p)
    case Nil
    then show ?thesis using assms(1) tag_hd_not_space by simp
  next
    case (Cons a q)
    then have "last (t # p) \<in> set p" by simp
    with assms(2) tag_char_not_space show ?thesis by blast
  qed
qed


text \<open>
  C3, as stated: when the strict pattern fails and the loose one matches, the patch
  component is always \<open>0\<close>. The loose pattern has a third group, the tag after the minor
  number, and \<open>version\<close> joins it as the patch: \<open>v1.2beta\<close> gives \<open>1.2.beta\<close>.
\<close>

theorem loose_patch_counterexample:
  "regexp_exec semver ''v1.2beta'' = None \<and> regexp_exec sillyver ''v1.2beta'' \<noteq> None
   \<and> version (Update blank) ''v1.2beta'' = Some ''1.2.beta''
   \<and> version (Update blank) ''v1.2beta'' \<noteq> Some ''1.2.0''"
  by code_simp

text \<open>
  C3, amended: when the strict pattern fails and the loose one matches, \<open>version\<close>
  returns \<open>major.minor.patch\<close>, where \<open>major\<close> is the first group (one digit), \<open>minor\<close> the
  second group trimmed (a digit, and a \<open>-\<close> if one follows), and \<open>patch\<close> is the third
  group, a tag that begins with a letter or \<open>-\<close>, when that group took part in the match,
  and \<open>0\<close> only when it did not.
\<close>

theorem loose_fallback_version:
  assumes "regexp_exec semver text = None" and "regexp_exec sillyver text = Some m"
  shows "\<exists>major minor sep.
           major \<in> set digit \<and> minor \<in> set digit \<and> set sep \<subseteq> set (''-'' @ space) \<and> length sep \<le> 1
         \<and> groups m 1 = Some [major] \<and> groups m 2 = Some (minor # sep)
         \<and> version (Update sq) text
             = Some ([major] @ ''.'' @ trim (minor # sep) @ ''.''
                     @ (case groups m 3 of None \<Rightarrow> ''0'' | Some tag \<Rightarrow> tag))
         \<and> (case groups m 3 of None \<Rightarrow> True
             | Some tag \<Rightarrow> tag \<noteq> [] \<and> hd tag \<in> set (alpha @ ''-''))"
proof -
  from assms(2) have "search sillyver 0 text = Some m" by (simp add: regexp_exec_def)
  from search_sound[OF this] obtain s' y where
    y: "y \<in> set (run sillyver (s', Map.empty))" "groups m = snd y" by blast
  from sillyver_shape[OF y(1)] y(2) obtain major minor sep where
    sh: "major \<in> set digit" "minor \<in> set digit" "set sep \<subseteq> set (''-'' @ space)" "length sep \<le> 1"
      "groups m 1 = Some [major]" "groups m 2 = Some (minor # sep)"
      "groups m 3 = None
         \<or> (\<exists>t p. t \<in> set (alpha @ ''-'') \<and> set p \<subseteq> set (alpha @ digit @ ''-.:'')
               \<and> groups m 3 = Some (t # p))"
    by auto
  have v: "version (Update sq) text = Some (joined m)"
    using assms by (simp add: version_def Update_def)
  have c1: "component (groups m 1) = [major]"
    using sh(1,5) digit_not_space[of major] by (simp add: component_def trim_def)
  have c2: "component (groups m 2) = trim (minor # sep)"
    using sh(6) by (simp add: component_def)
  from sh(7) have c3: "component (groups m 3) = (case groups m 3 of None \<Rightarrow> ''0'' | Some tag \<Rightarrow> tag)
      \<and> (case groups m 3 of None \<Rightarrow> True | Some tag \<Rightarrow> tag \<noteq> [] \<and> hd tag \<in> set (alpha @ ''-''))"
  proof
    assume "groups m 3 = None"
    then show ?thesis by (simp add: component_def)
  next
    assume "\<exists>t p. t \<in> set (alpha @ ''-'') \<and> set p \<subseteq> set (alpha @ digit @ ''-.:'')
               \<and> groups m 3 = Some (t # p)"
    then obtain t p where tp: "t \<in> set (alpha @ ''-'')" "set p \<subseteq> set (alpha @ digit @ ''-.:'')"
      "groups m 3 = Some (t # p)" by blast
    from trim_tag[OF tp(1,2)] tp(1,3) show ?thesis by (simp add: component_def)
  qed
  from v c1 c2 c3 have "version (Update sq) text
             = Some ([major] @ ''.'' @ trim (minor # sep) @ ''.''
                     @ (case groups m 3 of None \<Rightarrow> ''0'' | Some tag \<Rightarrow> tag))"
    by (simp add: joined_def)
  with sh(1-6) c3 show ?thesis by blast
qed

theorem loose_fallback_version_witness:
  "regexp_exec semver ''v1.2beta'' = None \<and> regexp_exec sillyver ''v1.2beta'' \<noteq> None
   \<and> version (Update blank) ''v1.2beta'' = Some ''1.2.beta''"
proof -
  have h1: "regexp_exec semver ''v1.2beta'' = None" by code_simp
  have "regexp_exec sillyver ''v1.2beta'' \<noteq> None" by code_simp
  then obtain m where h2: "regexp_exec sillyver ''v1.2beta'' = Some m" by blast
  have v: "version (Update blank) ''v1.2beta'' = Some ''1.2.beta''" by code_simp
  from loose_fallback_version[OF h1 h2, of blank] h1 h2 v show ?thesis by simp
qed


section \<open>The GitHub pattern and raw\<close>


lemma first_Chr_None: "s = [] \<or> hd s \<noteq> a \<Longrightarrow> first (Chr a) (s, c) = None"
  by (cases s) (auto simp: first_def)

lemma first_NoneOf: "x \<notin> set cs \<Longrightarrow> first (NoneOf cs) (x # s, c) = Some (s, c)"
  by (simp add: first_def)

lemma run_Star_NoneOf_Nil: "run (Star (NoneOf cs)) ([], c) = [([], c)]"
  by (subst run.simps(7)) simp

lemma run_Star_NoneOf_Cons:
  "run (Star (NoneOf cs)) (x # s, c) =
     (if x \<notin> set cs then run (Star (NoneOf cs)) (s, c) @ [(x # s, c)] else [(x # s, c)])"
  by (subst run.simps(7)) simp

lemma first_Star_NoneOf:
  "first (Star (NoneOf cs)) (s, c) = Some (dropWhile (\<lambda>x. x \<notin> set cs) s, c)"
proof (induction s)
  case Nil
  then show ?case by (simp add: first_def run_Star_NoneOf_Nil)
next
  case (Cons a s)
  then show ?case by (auto simp: first_def run_Star_NoneOf_Cons split: list.splits)
qed

lemma first_Plus_run:
  assumes "X \<noteq> []" "set X \<subseteq> set cs" "rest = [] \<or> hd rest \<notin> set cs"
  shows "first (Plus (OneOf cs)) (X @ rest, c) = Some (rest, c)"
proof -
  from assms(1) obtain x xs where X: "X = x # xs" by (cases X) auto
  with assms(2) have x: "x \<in> set cs" and xs: "\<And>y. y \<in> set xs \<Longrightarrow> y \<in> set cs" by auto
  have "dropWhile (\<lambda>x. x \<in> set cs) (xs @ rest) = rest"
    using xs assms(3) by (simp add: dropWhile_append2 dropWhile_stop)
  with first_Plus_OneOf[OF x, of "xs @ rest" c] show ?thesis by (simp add: X)
qed

lemma slash_not_name: "CHR ''/'' \<notin> set (word_char @ ''.-'')"
  by (simp add: word_char_def alpha_def digit_def)

lemma first_lit_github: "first (lit ''github'') (''github'' @ s, c) = Some (s, c)"
  by (simp add: lit_def first_def)

lemma first_lit_com: "first (lit ''com'') (''com'' @ s, c) = Some (s, c)"
  by (simp add: lit_def first_def)

lemma first_lit_blob: "first (lit ''blob'') (''blob'' @ s, c) = Some (s, c)"
  by (simp add: lit_def first_def)

lemma githubRE_unfold:
  "githubRE = Seq (lit ''github'') (Seq dot (Seq (lit ''com'') (Seq (Chr CHR ''/'')
      (Seq (Group 1 (Plus (OneOf (word_char @ ''.-'')))) (Seq (Chr CHR ''/'')
      (Seq (Group 2 (Plus (OneOf (word_char @ ''.-'')))) (Seq (Chr CHR ''/'')
      (Seq (lit ''blob'')
      (Seq (Group 3 (Seq (Chr CHR ''/'') (Plus (OneOf (word_char @ ''.-'')))))
      (Seq (Chr CHR ''/'') (Group 4 (Star dot))))))))))))"
  by (simp add: githubRE_def)

lemma first_githubRE:
  assumes o: "name_text owner" and r: "name_text repo" and b: "name_text branch"
    and p: "\<forall>x\<in>set file. x \<notin> set line_terminator"
  shows "first githubRE
           (''github.com/'' @ owner @ ''/'' @ repo @ ''/blob/'' @ branch @ ''/'' @ file, Map.empty)
         = Some ([], [1 \<mapsto> owner, 2 \<mapsto> repo, 3 \<mapsto> ''/'' @ branch, 4 \<mapsto> file])"
proof -
  let ?c1 = "[1 \<mapsto> owner]"
  let ?c2 = "[1 \<mapsto> owner, 2 \<mapsto> repo]"
  let ?c3 = "[1 \<mapsto> owner, 2 \<mapsto> repo, 3 \<mapsto> ''/'' @ branch]"
  let ?t4 = "''/'' @ file"
  let ?t3 = "''/'' @ branch @ ?t4"
  let ?t2 = "''/'' @ ''blob'' @ ?t3"
  let ?t1 = "''/'' @ repo @ ?t2"
  have s1: "first (lit ''github'') (''github'' @ ''.'' @ ''com'' @ ''/'' @ owner @ ?t1, Map.empty)
              = Some (''.'' @ ''com'' @ ''/'' @ owner @ ?t1, Map.empty)"
    by (rule first_lit_github)
  have s2: "first dot (''.'' @ ''com'' @ ''/'' @ owner @ ?t1, Map.empty)
              = Some (''com'' @ ''/'' @ owner @ ?t1, Map.empty)"
    by (simp add: dot_def line_terminator_def first_def)
  have s3: "first (lit ''com'') (''com'' @ ''/'' @ owner @ ?t1, Map.empty)
              = Some (''/'' @ owner @ ?t1, Map.empty)"
    by (rule first_lit_com)
  have s4: "first (Chr CHR ''/'') (''/'' @ owner @ ?t1, Map.empty) = Some (owner @ ?t1, Map.empty)"
    by (simp add: first_def)
  have s5: "first (Group 1 (Plus (OneOf (word_char @ ''.-'')))) (owner @ ?t1, Map.empty)
              = Some (?t1, ?c1)"
    using o slash_not_name by (intro first_Group_Plus) (auto simp: name_text_def)
  have s6: "first (Chr CHR ''/'') (?t1, ?c1) = Some (repo @ ?t2, ?c1)"
    by (simp add: first_def)
  have s7: "first (Group 2 (Plus (OneOf (word_char @ ''.-'')))) (repo @ ?t2, ?c1) = Some (?t2, ?c2)"
    using r slash_not_name by (intro first_Group_Plus) (auto simp: name_text_def)
  have s8: "first (Chr CHR ''/'') (?t2, ?c2) = Some (''blob'' @ ?t3, ?c2)"
    by (simp add: first_def)
  have s9: "first (lit ''blob'') (''blob'' @ ?t3, ?c2) = Some (?t3, ?c2)"
    by (rule first_lit_blob)
  have "first (Plus (OneOf (word_char @ ''.-''))) (branch @ ?t4, ?c2) = Some (?t4, ?c2)"
    using b slash_not_name by (intro first_Plus_run) (auto simp: name_text_def)
  then have "first (Seq (Chr CHR ''/'') (Plus (OneOf (word_char @ ''.-'')))) (?t3, ?c2)
               = Some (?t4, ?c2)"
    by (intro first_Seq[of _ _ "(branch @ ?t4, ?c2)"]) (simp_all add: first_def)
  from first_Group[OF this, of 3]
  have s10: "first (Group 3 (Seq (Chr CHR ''/'') (Plus (OneOf (word_char @ ''.-''))))) (?t3, ?c2)
               = Some (?t4, ?c3)" by simp
  have s11: "first (Chr CHR ''/'') (?t4, ?c3) = Some (file, ?c3)"
    by (simp add: first_def)
  have "dropWhile (\<lambda>x. x \<notin> set line_terminator) file = []"
    using p by simp
  then have "first (Star dot) (file, ?c3) = Some ([], ?c3)"
    by (simp add: dot_def first_Star_NoneOf)
  from first_Group[OF this, of 4]
  have s12: "first (Group 4 (Star dot)) (file, ?c3) = Some ([], ?c3(4 \<mapsto> file))" by simp
  have "first githubRE (''github'' @ ''.'' @ ''com'' @ ''/'' @ owner @ ?t1, Map.empty)
          = Some ([], ?c3(4 \<mapsto> file))"
    unfolding githubRE_unfold
    by (rule first_Seq[OF s1 first_Seq[OF s2 first_Seq[OF s3 first_Seq[OF s4 first_Seq[OF s5
          first_Seq[OF s6 first_Seq[OF s7 first_Seq[OF s8 first_Seq[OF s9 first_Seq[OF s10
          first_Seq[OF s11 s12]]]]]]]]]]])
  then show ?thesis by simp
qed

lemma first_githubRE_not_g: "x \<noteq> CHR ''g'' \<Longrightarrow> first githubRE (x # s, c) = None"
  unfolding githubRE_unfold
  by (rule first_Seq_None) (simp add: lit_def first_def)

lemma search_githubRE_skip:
  "CHR ''g'' \<notin> set pre \<Longrightarrow> search githubRE i (pre @ s) = search githubRE (i + length pre) s"
proof (induction pre arbitrary: i)
  case Nil
  then show ?case by simp
next
  case (Cons a pre)
  then have "first githubRE (a # pre @ s, Map.empty) = None"
    by (intro first_githubRE_not_g) auto
  from search_skip[OF this, of i] Cons.IH[of "Suc i"] Cons.prems show ?case by simp
qed


text \<open>
  C7: for an address \<open>...github.com/{owner}/{repo}/blob/{branch}/{path}\<close>, where owner,
  repository and branch are names of \<open>[\w\.\-]\<close>, the path stays on one line and nothing
  before \<open>github.com\<close> holds a \<open>g\<close> (as in \<open>https://\<close>), \<open>raw\<close> returns
  \<open>https://raw.github.com/{owner}/{repo}/{branch}/{path}\<close>. The witness is the address of
  the specification.
\<close>

theorem raw_of_blob_url:
  assumes "name_text owner" and "name_text repo" and "name_text branch"
    and "\<forall>x\<in>set file. x \<notin> set line_terminator"
    and "CHR ''g'' \<notin> set pre"
  shows "raw (pre @ ''github.com/'' @ owner @ ''/'' @ repo @ ''/blob/'' @ branch @ ''/'' @ file)
           = Inr (''https://raw.github.com/'' @ owner @ ''/'' @ repo @ ''/'' @ branch @ ''/'' @ file)"
proof -
  let ?s = "''github.com/'' @ owner @ ''/'' @ repo @ ''/blob/'' @ branch @ ''/'' @ file"
  from search_first[OF first_githubRE[OF assms(1-4)], of "0 + length pre"] obtain m where
    m: "search githubRE (0 + length pre) ?s = Some m"
       "groups m = [1 \<mapsto> owner, 2 \<mapsto> repo, 3 \<mapsto> ''/'' @ branch, 4 \<mapsto> file]" by auto
  from search_githubRE_skip[OF assms(5), of 0 ?s] m(1)
  have "regexp_exec githubRE (pre @ ?s) = Some m" by (simp add: regexp_exec_def)
  with m(2) show ?thesis by (simp add: raw_def to_string_def)
qed

theorem raw_of_blob_url_witness:
  "name_text ''acme'' \<and> name_text ''widgets'' \<and> name_text ''main''
   \<and> raw ''https://github.com/acme/widgets/blob/main/src/a.js''
       = Inr ''https://raw.github.com/acme/widgets/main/src/a.js''"
  using raw_of_blob_url [of "''acme''" "''widgets''" "''main''" "''src/a.js''" "''https://''"]
  by (simp add: name_text_def word_char_def alpha_def digit_def line_terminator_def)


section \<open>download and req\<close>

text \<open>
  C6, as stated: \<open>download\<close> fails when the body is empty. It does not look at the body:
  with status 200 and an empty body it calls back with the empty string.
\<close>

theorem download_empty_counterexample:
  "http_get (serving []) ''http://code.example.org/a.js'' = Response 200 (Some [])
   \<and> download (serving []) ''http://code.example.org/a.js'' = Called (Inr [])"
  by code_simp

text \<open>
  C6, amended: \<open>download\<close> calls back with an error exactly when the request fails (with
  that error) or the status is not 200 (with \<open>Invalid status code\<close>); with status 200 it
  calls back with the body as it is, also when the body is empty. The failure
  \<open>No content received\<close> for an empty body belongs to \<open>req\<close>, which checks what
  \<open>download\<close> returned.
\<close>

theorem download_outcome:
  "(download w uri = Called (Inl e) \<longleftrightarrow>
      http_get w uri = Unreachable e
      \<or> (\<exists>code body. http_get w uri = Response code body \<and> code \<noteq> 200
            \<and> e = Error ''Invalid status code''))
   \<and> (http_get w uri = Response 200 (Some body) \<longrightarrow> download w uri = Called (Inr body))
   \<and> (http_get w uri = Response 200 (Some []) \<longrightarrow>
        req (Some self) w uri = Called (Inl (Error (''No content received from '' @ uri))))"
  by (auto simp: download_def req_def split: http_reply.splits option.splits)

theorem download_outcome_witness:
  "http_get (serving []) ''u'' = Response 200 (Some [])
   \<and> download (serving []) ''u'' = Called (Inr [])
   \<and> req (Some (Update blank)) (serving []) ''u'' = Called (Inl (Error ''No content received from u''))"
  using download_outcome [of "serving []" "''u''" "Error []" "[]" "Update blank"]
  by (simp add: serving_def quiet_def)

text \<open>
  What \<open>req\<close> does after a non-empty download: \<open>split\<close> returns one element at least, and
  the first round of \<open>someline\<close> calls \<open>version\<close> without receiver.
\<close>

lemma split_not_Nil: "split sep cur s \<noteq> []"
  by (induction sep cur s rule: split.induct) (auto split: list.splits)

lemma someline_plain_call:
  "someline Fn (line # rest) = Inl (TypeError ''Cannot read property 'strict' of undefined'')"
  by (simp add: call_version_def)

lemma req_plain_call_throws:
  assumes "download w uri = Called (Inr body)" and "body \<noteq> []" and "0 < lines self"
  shows "req (Some self) w uri = Thrown (TypeError ''Cannot read property 'strict' of undefined'')"
proof -
  obtain line rest where "split separator [] body = line # rest"
    using split_not_Nil[of separator "[]" body] by (cases "split separator [] body") auto
  moreover from assms(3) obtain n where "nat (lines self) = Suc n"
    by (cases "nat (lines self)") auto
  ultimately have "splice0 (split separator [] body) (lines self) = line # take n rest"
    by (simp add: splice0_def)
  with assms(1,2) show ?thesis by (simp add: req_def call_version_def)
qed

lemma window_of_fifteen:
  "splice0 (split separator [] twelve_lines) 15
     = [Some ''x'', None, Some ''x'', None, Some ''x'', None, Some ''x'', None,
        Some ''x'', None, Some ''x'', None, Some ''x'', None, Some ''x'']"
  by code_simp

text \<open>
  C1 says that \<open>req\<close> scans the first \<open>lines\<close> lines and so finds a version on line 12
  when \<open>lines\<close> is 15. The code does not: the separator has a group, so \<open>split\<close> puts
  what the group captured between the lines and the first 15 elements hold lines 1 to 8
  only (see the lemma above); and the first call of \<open>version\<close>, a plain call, throws before
  any line is read. With twelve lines, the version on the last, and \<open>lines = 15\<close>, \<open>req\<close> ends with
  that exception and \<open>fn\<close> is never called.
\<close>

theorem req_line_twelve_window_fifteen:
  "req (Some ((Update blank)\<lparr>lines := 15\<rparr>)) (serving twelve_lines) ''http://code.example.org/a.js''
     = Thrown (TypeError ''Cannot read property 'strict' of undefined'')"
  by code_simp

section \<open>The run\<close>

text \<open>
  C4, as stated: an address with \<open>#\<close> goes to the selector, also when it has the shape
  of a GitHub blob. The test for GitHub comes second and replaces the choice.
\<close>

theorem select_provider_counterexample:
  "CHR ''#'' \<in> set ''https://github.com/acme/a/blob/master/a.js#L10''
   \<and> regexp_test githubRE ''https://github.com/acme/a/blob/master/a.js#L10''
   \<and> select_provider ''https://github.com/acme/a/blob/master/a.js#L10'' = Github
   \<and> select_provider ''https://github.com/acme/a/blob/master/a.js#L10'' \<noteq> Selector"
  by code_simp

text \<open>
  C4, amended: an address of the shape of a GitHub blob goes to \<open>github\<close>, with or without
  \<open>#\<close>; any other address with \<open>#\<close> goes to \<open>selector\<close>; the rest goes to \<open>req\<close>.
\<close>

theorem select_provider_order:
  "select_provider uri =
     (if regexp_test githubRE uri then Github
      else if CHR ''#'' \<in> set uri then Selector
      else Req)"
  by (simp add: select_provider_def)

text \<open>
  C8: when the provider chosen for the entry calls back with a version that equals the
  recorded one, the iterator calls \<open>cb()\<close> without error and the state is the same as
  before: no notice, no file written, no field changed.
\<close>

theorem unchanged_version_no_effect:
  assumes "entry_of st key = Some b" and "latest b = Some uri" and "uri \<noteq> []"
    and "provide (select_provider uri) w uri = Called (Inr (v, body))"
    and "truthy v" and "v = entry_version b"
  shows "testing w key st = (st, Called None)"
  using assms by (simp add: testing_def test_def)

theorem unchanged_version_no_effect_witness:
  "testing one_commit ''a'' up_to_date = (up_to_date, Called None)"
proof -
  let ?uri = "''https://github.com/acme/a/blob/master/a.js''"
  have 1: "entry_of up_to_date ''a'' = Some (third_party ''abc'' ?uri)"
    by (simp add: entry_of_def up_to_date_def manifest_def Update_def)
  have 2: "latest (third_party ''abc'' ?uri) = Some ?uri" by (simp add: third_party_def)
  have 3: "?uri \<noteq> []" by simp
  have 4: "provide (select_provider ?uri) one_commit ?uri = Called (Inr (Str ''abc'', None))"
    by code_simp
  have 5: "truthy (Str ''abc'')" by (simp add: truthy_def)
  have 6: "Str ''abc'' = entry_version (third_party ''abc'' ?uri)" by (simp add: third_party_def)
  show ?thesis by (rule unchanged_version_no_effect[OF 1 2 3 4 5 6])
qed

lemma map_of_replace:
  "map_of xs key = Some b \<Longrightarrow>
     map_of (map (\<lambda>(k, v). if k = key then (k, e) else (k, v)) xs) key = Some e"
  by (induction xs) (auto split: if_splits)

lemma entry_of_put_entry: "entry_of st key = Some b \<Longrightarrow> entry_of (put_entry key e st) key = Some e"
  by (simp add: entry_of_def put_entry_def map_of_replace)

text \<open>
  What \<open>done\<close> does when a write throws and the entry has a recorded version: \<open>cb\<close>
  receives the exception, the entry keeps the new version and content, and the package
  the new source, in which the version of the key is the new one.
\<close>

lemma map_of_assign: "map_of (assign props name v) name = Some v"
  by (induction props name v rule: assign.induct) auto

lemma set_version_recorded:
  "set_version code key v = Inr code' \<Longrightarrow> recorded_in code' key = Some (Val v)"
  by (auto simp: set_version_def recorded_in_def map_of_assign
           split: json.splits option.splits)

lemma done_reports_write_error:
  assumes "JSON_parse w (source (package (square (updater st)))) = Inr code"
    and "set_version code key v = Inr code'"
    and "entry_of st key = Some b" and "entry_version b \<noteq> Undefined"
    and "write_error w (location (package (square (updater st)))) = Some e
         \<or> (write_error w (location (package (square (updater st)))) = None
             \<and> write_error w (meta_location b) = Some e)"
  shows "\<exists>st'. done_cb w key b v st None body = (st', Called (Some e))
           \<and> entry_of st' key = Some (b\<lparr>entry_version := v, entry_content := body\<rparr>)
           \<and> source (package (square (updater st'))) = JSON_stringify w code'
           \<and> recorded_in code' key = Some (Val v)"
proof -
  let ?e = "b\<lparr>entry_version := v, entry_content := body\<rparr>"
  let ?st2 = "put_source (JSON_stringify w code') (put_entry key ?e st)"
  have loc: "location (package (square (updater ?st2))) = location (package (square (updater st)))"
    by (simp add: put_source_def put_entry_def)
  have ent: "entry_of ?st2 key = Some ?e"
    using entry_of_put_entry[OF assms(3), of ?e] by (simp add: entry_of_def put_source_def)
  have src: "source (package (square (updater ?st2))) = JSON_stringify w code'"
    by (simp add: put_source_def)
  note rec = set_version_recorded[OF assms(2)]
  from assms(5) show ?thesis
  proof
    assume "write_error w (location (package (square (updater st)))) = Some e"
    then have "done_cb w key b v st None body
        = (emit (Notice ''sucessfully updated %s from version %s to %s''
                   [key, show_val (entry_version b), show_val v]) ?st2, Called (Some e))"
      using assms(1,2,4) loc by (simp add: done_cb_def writeFileSync_def Let_def)
    with ent src rec show ?thesis by (simp add: emit_def entry_of_def)
  next
    assume a: "write_error w (location (package (square (updater st)))) = None
             \<and> write_error w (meta_location b) = Some e"
    let ?st3 = "emit (Write (location (package (square (updater st))))
                        (Some (JSON_stringify w code'))) ?st2"
    from a have "done_cb w key b v st None body
        = (emit (Notice ''sucessfully updated %s from version %s to %s''
                   [key, show_val (entry_version b), show_val v]) ?st3, Called (Some e))"
      using assms(1,2,4) loc by (simp add: done_cb_def writeFileSync_def Let_def)
    with ent src rec show ?thesis by (simp add: emit_def entry_of_def)
  qed
qed

text \<open>
  C9 says that the exception of a write is caught and reported through \<open>cb\<close>, with the
  change in memory kept. It is caught, but \<open>current.grey\<close> stands between the \<open>catch\<close> and
  \<open>cb(err)\<close>: for a bundle with an address and no recorded version it throws, \<open>cb\<close> is
  never called and the exception of the write is lost, while the entry and the source
  keep their new values.
\<close>

theorem write_error_lost_without_version:
  "snd (execute vendor_world (\<lambda>st. st) unversioned)
     = Threw (TypeError ''Cannot read property 'grey' of undefined'')
   \<and> trace (fst (execute vendor_world (\<lambda>st. st) unversioned))
     = [Notice ''%s is out of date, latest version is %s'' [''a'', ''abc'']]
   \<and> entry_of (fst (execute vendor_world (\<lambda>st. st) unversioned)) ''a''
     = Some (unversioned_entry\<lparr>entry_version := Str ''abc'', entry_content := Some ''code''\<rparr>)
   \<and> source (package (square (updater (fst (execute vendor_world (\<lambda>st. st) unversioned)))))
     = manifest_after"
  by code_simp

text \<open>No step of a run gives an error to the logger.\<close>

lemma logged_emit:
  "logged (emit ev st) = logged st @ (case ev of LoggedError e \<Rightarrow> [e] | _ \<Rightarrow> [])"
  by (simp add: logged_def emit_def)

lemma logged_put: "logged (put_source src st) = logged st" "logged (put_entry key e st) = logged st"
  by (simp_all add: logged_def put_source_def put_entry_def)

lemma logged_write: "writeFileSync w p d st = Inr st' \<Longrightarrow> logged st' = logged st"
  by (auto simp: writeFileSync_def logged_emit split: option.splits)

lemma logged_done_cb: "logged (fst (done_cb w key b v st err body)) = logged st"
  by (auto simp: done_cb_def Let_def logged_emit logged_put dest!: logged_write
           split: option.splits sum.splits prod.splits)

lemma logged_test: "logged (fst (test w key b uri p st err v body)) = logged st"
  by (auto simp: test_def Let_def logged_emit logged_done_cb
           split: option.splits sum.splits called.splits)

lemma logged_testing: "logged (fst (testing w key st)) = logged st"
  by (auto simp: testing_def Let_def logged_test
           split: option.splits sum.splits called.splits prod.splits)

lemma logged_finished: "logged (fst (finished err st)) = logged st"
  by (auto simp: finished_def split: final_arg.splits list.splits)

lemma logged_forEach: "logged (fst (forEach w n keys completed live st)) = logged st"
proof (induction keys arbitrary: completed live st)
  case Nil
  then show ?case by simp
next
  case (Cons key keys)
  obtain st' r where t: "testing w key st = (st', r)" by (cases "testing w key st")
  with logged_testing[of w key st] have l: "logged st' = logged st" by simp
  show ?case
  proof (cases r)
    case (Thrown e)
    with t l show ?thesis by simp
  next
    case Silent
    with t l Cons.IH show ?thesis by simp
  next
    case (Called err)
    show ?thesis
    proof (cases err)
      case None
      with Called t l Cons.IH logged_finished[of NoError "emit (Cb key None) st'"]
      show ?thesis
        by (auto simp: Let_def logged_emit split: prod.splits option.splits)
    next
      case (Some e)
      with Called t l Cons.IH logged_finished[of "OneError e" "emit (Cb key (Some e)) st'"]
      show ?thesis
        by (auto simp: Let_def logged_emit split: prod.splits option.splits)
    qed
  qed
qed

lemma execute_logs_no_error: "logged (fst (execute w fn st)) = logged st"
  using logged_finished[of NoError st]
  by (auto simp: execute_def Let_def logged_forEach split: prod.splits option.splits)

text \<open>
  C2 says that every error of a key is logged at the end of the run. The library hands
  \<open>finished\<close> the first error only, an error object without \<open>forEach\<close>, so nothing is
  logged: with two bundles whose repositories have no commit, \<open>cb\<close> receives both
  errors and the trace holds no logged error.
\<close>

theorem execute_errors_never_logged:
  "trace (fst (execute quiet (\<lambda>st. st) two_github))
     = [Cb ''a'' (Some (Error
           ''No commits in this repo: https://github.com/acme/a/blob/master/a.js'')),
        Cb ''b'' (Some (Error
           ''No commits in this repo: https://github.com/acme/b/blob/master/b.js''))]
   \<and> snd (execute quiet (\<lambda>st. st) two_github) = Returned"
  by code_simp

text \<open>A bundle with a plain address ends the run with an exception, before the bundle after
  it is looked at: \<open>req\<close> is called without receiver.\<close>

lemma execute_plain_address_throws:
  "execute one_commit (\<lambda>st. st) plain_then_github
     = (plain_then_github, Threw (TypeError ''Cannot read property 'lines' of undefined''))"
  by code_simp

text \<open>
  C10: \<open>execute\<close> never calls \<open>fn\<close>: whatever the callback would do, the run is the
  same.
\<close>

theorem execute_never_calls_fn: "execute w fn st = execute w fn' st"
  by (simp add: execute_def)

end
